theory Spec2Isabelle
  imports Complex_Main "HOL-Library.AList" "HOL-Library.DAList"
begin

section \<open>Python values used by the two modules\<close>

text \<open>
  Python floats are modelled by the reals, with one extra value for \<^verbatim>\<open>float('inf')\<close>
  where the source produces it. The model decides comparisons and the flow of control;
  it does not give the digits a float computation returns, since the rounding of IEEE
  arithmetic is outside it. Python ints are \<open>int\<close>. Exceptions are values of \<open>error\<close>.
\<close>

datatype error =
    KeyError string
  | IndexError
  | ZeroDivisionError
  | DataUnavailable

datatype pyfloat = Finite real | Infinity

text \<open>\<^verbatim>\<open>a < b\<close> for a float that may be \<^verbatim>\<open>float('inf')\<close> and a finite bound.\<close>

fun float_less :: "pyfloat \<Rightarrow> real \<Rightarrow> bool" where
  "float_less (Finite a) b = (a < b)"
| "float_less Infinity b = False"

text \<open>A Python \<^verbatim>\<open>dict\<close> with string keys: an association list with unique keys, in
  insertion order.\<close>

type_synonym 'v dict = "(string, 'v) alist"

text \<open>\<^verbatim>\<open>str(n)\<close> and \<^verbatim>\<open>f'{n}'\<close> for a non-negative integer: its decimal digits.\<close>

definition digit_char :: "nat \<Rightarrow> char" where
  "digit_char d = ''0123456789'' ! d"

fun str_nat :: "nat \<Rightarrow> string" where
  "str_nat n = (if n < 10 then [digit_char n] else str_nat (n div 10) @ [digit_char (n mod 10)])"

declare str_nat.simps [simp del]

text \<open>\<^verbatim>\<open>xs[i]\<close> with an integer index: an index below zero is taken from the end of the
  list, and an index outside both ranges raises.\<close>

definition list_get :: "'a list \<Rightarrow> int \<Rightarrow> error + 'a" where
  "list_get xs i =
     (if 0 \<le> i \<and> i < int (length xs) then Inr (xs ! nat i)
      else if i < 0 \<and> - int (length xs) \<le> i then Inr (xs ! nat (int (length xs) + i))
      else Inl IndexError)"

text \<open>\<^verbatim>\<open>round(x)\<close> of a float, with one argument: the nearest integer, a tie going to the
  even one.\<close>

definition round_py :: "real \<Rightarrow> int" where
  "round_py r =
     (let f = \<lfloor>r\<rfloor>; d = r - of_int f
      in if d < 1 / 2 then f else if 1 / 2 < d then f + 1 else if even f then f else f + 1)"

text \<open>\<^verbatim>\<open>math.hypot(a, b)\<close>.\<close>

definition hypot :: "real \<Rightarrow> real \<Rightarrow> real" where
  "hypot a b = sqrt (a\<^sup>2 + b\<^sup>2)"

section \<open>The simulator objects read by \<^verbatim>\<open>environment.py\<close>\<close>

text \<open>
  The simulator's actors are read through their methods only. A vehicle is the snapshot of
  what \<^verbatim>\<open>get_location()\<close>, \<^verbatim>\<open>get_velocity()\<close> and \<^verbatim>\<open>get_traffic_light_state()\<close> return at
  the time of the call; \<^verbatim>\<open>Location.distance\<close> is the Euclidean distance of the simulator's API.
\<close>

datatype Location = Location (loc_x: real) (loc_y: real) (loc_z: real)

datatype Vector3D = Vector3D (vec_x: real) (vec_y: real) (vec_z: real)

datatype TrafficLightState = Red | Yellow | Green | Off | Unknown

record Transform =
  location :: Location

record vehicle =
  get_location :: Location
  get_velocity :: Vector3D
  get_traffic_light_state :: TrafficLightState

definition distance :: "Location \<Rightarrow> Location \<Rightarrow> real" where
  "distance a b = sqrt ((loc_x a - loc_x b)\<^sup>2 + (loc_y a - loc_y b)\<^sup>2 + (loc_z a - loc_z b)\<^sup>2)"

section \<open>\<^verbatim>\<open>CarlaEnv\<close>: the fields the traffic analytics read and write\<close>

record CarlaEnv =
  vehicle_list :: "vehicle list"
  intersections :: "Location list"
  spawn_points :: "Transform list"
  travelled_frames :: "int dict"
  destination_indices :: "int dict"
  reached_destination :: "bool dict"
  congestion_statistics :: "int dict"
  fps :: int

definition vehicle_id :: "nat \<Rightarrow> string" where
  "vehicle_id i = ''vehicle_'' @ str_nat (i + 1)"

definition intersection_id :: "nat \<Rightarrow> string" where
  "intersection_id i = ''intersection_'' @ str_nat (i + 1)"

subsection \<open>\<^verbatim>\<open>is_in_intersection\<close> and \<^verbatim>\<open>get_avg_velocity\<close>\<close>

definition is_in_intersection :: "vehicle \<Rightarrow> Location \<Rightarrow> int \<Rightarrow> bool" where
  "is_in_intersection vehicle intersection max_distance =
     (let vehicle_location = get_location vehicle
      in if distance intersection vehicle_location < of_int max_distance then True else False)"

text \<open>The loop of \<^verbatim>\<open>get_avg_velocity\<close>, with its two accumulators; \<^verbatim>\<open>is_in_intersection\<close>
  is called with its default \<^verbatim>\<open>max_distance=50\<close>.\<close>

fun avg_velocity_loop :: "Location \<Rightarrow> vehicle list \<Rightarrow> real \<Rightarrow> nat \<Rightarrow> real \<times> nat" where
  "avg_velocity_loop intersection [] velocities n_vehicles = (velocities, n_vehicles)"
| "avg_velocity_loop intersection (vehicle # rest) velocities n_vehicles =
     (if is_in_intersection vehicle intersection 50 then
        if get_traffic_light_state vehicle = Green then
          let velocity = hypot (vec_x (get_velocity vehicle)) (vec_y (get_velocity vehicle)) * 3.6
          in avg_velocity_loop intersection rest (velocities + velocity) (n_vehicles + 1)
        else avg_velocity_loop intersection rest velocities n_vehicles
      else avg_velocity_loop intersection rest velocities n_vehicles)"

definition get_avg_velocity :: "CarlaEnv \<Rightarrow> Location \<Rightarrow> pyfloat" where
  "get_avg_velocity env intersection =
     (case avg_velocity_loop intersection (vehicle_list env) 0 0 of
        (velocities, n_vehicles) \<Rightarrow>
          if n_vehicles > 0 then Finite (velocities / real n_vehicles) else Infinity)"

subsection \<open>\<^verbatim>\<open>increment_congestion_statistics\<close>\<close>

text \<open>One iteration of the loop over \<^verbatim>\<open>enumerate(self.intersections)\<close>. A missing counter
  raises before anything is written; the error carries the state at the raise.\<close>

definition congestion_step :: "real \<Rightarrow> CarlaEnv \<Rightarrow> nat \<Rightarrow> Location \<Rightarrow> error \<times> CarlaEnv + CarlaEnv" where
  "congestion_step speed_limit env i intersection =
     (let intersection_id = intersection_id i;
          avg_velocity = get_avg_velocity env intersection
      in if float_less avg_velocity (0.5 * speed_limit) then
           (case DAList.lookup (congestion_statistics env) intersection_id of
              None \<Rightarrow> Inl (KeyError intersection_id, env)
            | Some c \<Rightarrow>
                Inr (env\<lparr>congestion_statistics :=
                          DAList.update intersection_id (c + 1) (congestion_statistics env)\<rparr>))
         else Inr env)"

fun congestion_loop :: "real \<Rightarrow> CarlaEnv \<Rightarrow> (nat \<times> Location) list \<Rightarrow> error \<times> CarlaEnv + CarlaEnv" where
  "congestion_loop speed_limit env [] = Inr env"
| "congestion_loop speed_limit env ((i, intersection) # rest) =
     (case congestion_step speed_limit env i intersection of
        Inl err \<Rightarrow> Inl err
      | Inr env' \<Rightarrow> congestion_loop speed_limit env' rest)"

definition increment_congestion_statistics :: "CarlaEnv \<Rightarrow> real \<Rightarrow> error \<times> CarlaEnv + CarlaEnv" where
  "increment_congestion_statistics env speed_limit =
     congestion_loop speed_limit env (enumerate 0 (intersections env))"

text \<open>\<^verbatim>\<open>add_intersection\<close>: the only place that creates a counter.\<close>

definition add_intersection :: "CarlaEnv \<Rightarrow> real \<Rightarrow> real \<Rightarrow> real \<Rightarrow> CarlaEnv" where
  "add_intersection env x_coord y_coord z_coord =
     (let intersection = Location x_coord y_coord z_coord;
          intersections' = intersections env @ [intersection];
          intersection_id = ''intersection_'' @ str_nat (length intersections')
      in env\<lparr>intersections := intersections',
              congestion_statistics := DAList.update intersection_id 0 (congestion_statistics env)\<rparr>)"

subsection \<open>\<^verbatim>\<open>increment_travelled_frames\<close> and \<^verbatim>\<open>calculate_travel_times\<close>\<close>

text \<open>One iteration of the loop over \<^verbatim>\<open>enumerate(self.vehicle_list)\<close>.\<close>

definition travel_step :: "CarlaEnv \<Rightarrow> nat \<Rightarrow> vehicle \<Rightarrow> error \<times> CarlaEnv + CarlaEnv" where
  "travel_step env i vehicle =
     (let vehicle_id = vehicle_id i
      in case DAList.lookup (destination_indices env) vehicle_id of
           None \<Rightarrow> Inr env
         | Some destination_index \<Rightarrow>
            (case list_get (spawn_points env) destination_index of
               Inl err \<Rightarrow> Inl (err, env)
             | Inr spawn_point \<Rightarrow>
                (let destination = location spawn_point;
                     destination_x = round_py (loc_x destination);
                     destination_y = round_py (loc_y destination);
                     vehicle_x = round_py (loc_x (get_location vehicle));
                     vehicle_y = round_py (loc_y (get_location vehicle));
                     env1 = (if vehicle_x = destination_x \<and> vehicle_y = destination_y
                             then env\<lparr>reached_destination :=
                                         DAList.update vehicle_id True (reached_destination env)\<rparr>
                             else env)
                 in case DAList.lookup (reached_destination env1) vehicle_id of
                      None \<Rightarrow> Inl (KeyError vehicle_id, env1)
                    | Some reached \<Rightarrow>
                        if \<not> reached then
                          (case DAList.lookup (travelled_frames env1) vehicle_id of
                             None \<Rightarrow> Inl (KeyError vehicle_id, env1)
                           | Some n \<Rightarrow>
                               Inr (env1\<lparr>travelled_frames :=
                                          DAList.update vehicle_id (n + 1) (travelled_frames env1)\<rparr>))
                        else Inr env1)))"

fun travel_loop :: "CarlaEnv \<Rightarrow> (nat \<times> vehicle) list \<Rightarrow> error \<times> CarlaEnv + CarlaEnv" where
  "travel_loop env [] = Inr env"
| "travel_loop env ((i, vehicle) # rest) =
     (case travel_step env i vehicle of
        Inl err \<Rightarrow> Inl err
      | Inr env' \<Rightarrow> travel_loop env' rest)"

definition increment_travelled_frames :: "CarlaEnv \<Rightarrow> error \<times> CarlaEnv + CarlaEnv" where
  "increment_travelled_frames env = travel_loop env (enumerate 0 (vehicle_list env))"

text \<open>The state a call leaves behind, whether it returned or raised.\<close>

fun state_after :: "error \<times> CarlaEnv + CarlaEnv \<Rightarrow> CarlaEnv" where
  "state_after (Inl (err, env)) = env"
| "state_after (Inr env) = env"

text \<open>A run of accounting passes: before each pass the simulator has moved the vehicles,
  so each pass sees a new snapshot of the vehicle list.\<close>

fun travel_run :: "CarlaEnv \<Rightarrow> vehicle list list \<Rightarrow> CarlaEnv" where
  "travel_run env [] = env"
| "travel_run env (snapshot # later) =
     travel_run (state_after (increment_travelled_frames (env\<lparr>vehicle_list := snapshot\<rparr>))) later"

text \<open>\<^verbatim>\<open>calculate_travel_times\<close>: the loop over \<^verbatim>\<open>self.travelled_frames.items()\<close>; Python's
  \<^verbatim>\<open>/\<close> on ints is true division and raises on a zero divisor.\<close>

fun travel_times_loop :: "int \<Rightarrow> (string \<times> int) list \<Rightarrow> real dict \<Rightarrow> error + real dict" where
  "travel_times_loop fps_value [] travel_times = Inr travel_times"
| "travel_times_loop fps_value ((vehicle_key, frames) # rest) travel_times =
     (if fps_value = 0 then Inl ZeroDivisionError
      else travel_times_loop fps_value rest
             (DAList.update vehicle_key (of_int frames / of_int fps_value) travel_times))"

definition calculate_travel_times :: "CarlaEnv \<Rightarrow> error + real dict" where
  "calculate_travel_times env =
     travel_times_loop (fps env) (DAList.impl_of (travelled_frames env)) DAList.empty"

section \<open>\<^verbatim>\<open>node.py\<close>: the detection reducer and the node's tick loop\<close>

text \<open>
  The data classes of \<^verbatim>\<open>data_models\<close>, with the fields the constructors in \<^verbatim>\<open>node.py\<close>
  are called with. A \<open>row\<close> is one row of the table \<^verbatim>\<open>raw_output.pandas().xyxy[0]\<close>; the
  table's index is the default one, so \<^verbatim>\<open>iterrows()\<close> yields the rows with their positions.
\<close>

record EntityState =
  is_rsu :: bool
  state_x :: real
  state_y :: real
  direction :: real
  velocity :: real

record image =
  shape :: "int \<times> int \<times> int"
  pixels :: "nat list"

record row =
  row_name :: string
  row_xmin :: real
  row_ymin :: real
  row_xmax :: real
  row_ymax :: real
  row_confidence :: real

record DetectionData =
  parent_id :: string
  detection_id :: string
  detection_type :: string
  xmin :: real
  xmax :: real
  ymin :: real
  ymax :: real
  timestep :: nat

record OutputSummary =
  summary_node_id :: string
  summary_is_rsu :: bool
  agent_x :: real
  agent_y :: real
  summary_direction :: real
  summary_velocity :: real
  detections :: "DetectionData list"
  summary_timestep :: nat

text \<open>
  A node with its collaborators: the two reads of the data loader, which return or raise,
  and the model's \<^verbatim>\<open>forward\<close>, which returns the table of raw detections. The loader and
  the model are parameters of the node.
\<close>

record Node =
  node_id :: string
  read_entity_state :: "string \<Rightarrow> nat \<Rightarrow> error + EntityState"
  read_images :: "string \<Rightarrow> nat \<Rightarrow> error + image"
  forward :: "image \<Rightarrow> row list"

definition read_data :: "Node \<Rightarrow> nat \<Rightarrow> error + EntityState \<times> image" where
  "read_data self now =
     (case read_entity_state self (node_id self) now of
        Inl err \<Rightarrow> Inl err
      | Inr agent_state \<Rightarrow>
         (case read_images self (node_id self) now of
            Inl err \<Rightarrow> Inl err
          | Inr camera_image \<Rightarrow> Inr (agent_state, camera_image)))"

subsection \<open>\<^verbatim>\<open>summarize_output\<close>\<close>

definition make_detection :: "string \<Rightarrow> nat \<Rightarrow> nat \<Rightarrow> row \<Rightarrow> DetectionData" where
  "make_detection self_node_id now i r =
     \<lparr>parent_id = self_node_id,
      detection_id = str_nat i,
      detection_type = row_name r,
      xmin = row_xmin r,
      xmax = row_xmax r,
      ymin = row_ymin r,
      ymax = row_ymax r,
      timestep = now\<rparr>"

text \<open>The loop over \<^verbatim>\<open>iterrows()\<close>; the last argument is the list \<^verbatim>\<open>detections\<close> built
  so far, and a \<^verbatim>\<open>continue\<close> is a recursive call that leaves it as it is.\<close>

fun summarize_loop ::
  "string \<Rightarrow> nat \<Rightarrow> int \<times> int \<times> int \<Rightarrow> EntityState \<Rightarrow> (nat \<times> row) list \<Rightarrow>
   DetectionData list \<Rightarrow> DetectionData list" where
  "summarize_loop self_node_id now im_shape state [] dets = dets"
| "summarize_loop self_node_id now im_shape state ((i, r) # rest) dets =
     (if row_name r = ''car'' \<or> row_name r = ''person'' then
        if \<not> is_rsu state \<and> row_name r = ''car'' then
          (let ymin_max = of_int (fst im_shape) / 1.6;
               ymax_max = of_int (fst im_shape) / 16
           in if row_ymin r > ymin_max \<and> row_ymax r > ymax_max
              then summarize_loop self_node_id now im_shape state rest dets
              else summarize_loop self_node_id now im_shape state rest
                     (dets @ [make_detection self_node_id now i r]))
        else summarize_loop self_node_id now im_shape state rest
               (dets @ [make_detection self_node_id now i r])
      else summarize_loop self_node_id now im_shape state rest dets)"

definition summarize_output ::
  "Node \<Rightarrow> nat \<Rightarrow> row list \<Rightarrow> int \<times> int \<times> int \<Rightarrow> EntityState \<Rightarrow> OutputSummary" where
  "summarize_output self now raw_output im_shape state =
     \<lparr>summary_node_id = node_id self,
      summary_is_rsu = is_rsu state,
      agent_x = state_x state,
      agent_y = state_y state,
      summary_direction = direction state,
      summary_velocity = velocity state,
      detections = summarize_loop (node_id self) now im_shape state (enumerate 0 raw_output) [],
      summary_timestep = now\<rparr>"

text \<open>The decision the loop takes for one row, as a predicate: the row yields a record.\<close>

definition survives :: "int \<times> int \<times> int \<Rightarrow> EntityState \<Rightarrow> row \<Rightarrow> bool" where
  "survives im_shape state r =
     ((row_name r = ''car'' \<or> row_name r = ''person'') \<and>
      \<not> (\<not> is_rsu state \<and> row_name r = ''car'' \<and>
         row_ymin r > of_int (fst im_shape) / 1.6 \<and> row_ymax r > of_int (fst im_shape) / 16))"

subsection \<open>\<^verbatim>\<open>run\<close>\<close>

text \<open>The two shared dictionaries the node writes.\<close>

record pipes =
  data_pipe :: "OutputSummary dict"
  result_storage_pipe :: "DetectionData list dict"

text \<open>
  One pass through the body of \<^verbatim>\<open>while True\<close>, up to the \<^verbatim>\<open>yield\<close>, at simulation time
  \<open>now\<close>. Every raise happens before the first write, so an error leaves the pipes as
  they were.
\<close>

definition run_body :: "Node \<Rightarrow> nat \<Rightarrow> pipes \<Rightarrow> error + pipes" where
  "run_body self now p =
     (case read_data self now of
        Inl err \<Rightarrow> Inl err
      | Inr (state, img) \<Rightarrow>
         (let raw_output = forward self img;
              output = summarize_output self now raw_output (shape img) state
          in case DAList.lookup (result_storage_pipe p) ''yolo_images'' of
               None \<Rightarrow> Inl (KeyError ''yolo_images'')
             | Some yolo_images \<Rightarrow>
                 Inr (p\<lparr>result_storage_pipe :=
                          DAList.update ''yolo_images'' (yolo_images @ detections output)
                            (result_storage_pipe p),
                        data_pipe := DAList.update (node_id self) output (data_pipe p)\<rparr>)))"

text \<open>
  The generator returned by \<^verbatim>\<open>run()\<close>. It is either suspended at its \<^verbatim>\<open>yield\<close> (or not yet
  started), or it has ended with the exception that left the loop: \<^verbatim>\<open>run\<close> has no handler,
  and a generator that has raised cannot be resumed.
\<close>

datatype generator = Suspended | Raised error

fun run :: "Node \<Rightarrow> nat \<Rightarrow> generator \<times> pipes \<Rightarrow> generator \<times> pipes" where
  "run self now (Raised err, p) = (Raised err, p)"
| "run self now (Suspended, p) =
     (case run_body self now p of
        Inl err \<Rightarrow> (Raised err, p)
      | Inr p' \<Rightarrow> (Suspended, p'))"

text \<open>The node over the ticks \<open>t, t + 1, \<dots>, t + n - 1\<close>.\<close>

fun run_ticks :: "Node \<Rightarrow> nat \<Rightarrow> nat \<Rightarrow> generator \<times> pipes \<Rightarrow> generator \<times> pipes" where
  "run_ticks self t 0 gp = gp"
| "run_ticks self t (Suc n) gp = run_ticks self (Suc t) n (run self t gp)"

section \<open>Well-formed environments\<close>

text \<open>Every intersection has its counter: \<^verbatim>\<open>add_intersection\<close> appends the location and
  creates the counter under the same number.\<close>

definition counters_present :: "CarlaEnv \<Rightarrow> bool" where
  "counters_present env =
     (\<forall>i<length (intersections env).
        DAList.lookup (congestion_statistics env) (intersection_id i) \<noteq> None)"

section \<open>Example scenes\<close>

text \<open>Two vehicles under green lights, one at 14 km/h at the first intersection and one at
  16 km/h at the second; the third intersection has no vehicle near it.\<close>

definition example_scene :: CarlaEnv where
  "example_scene =
     add_intersection (add_intersection (add_intersection
       \<lparr>vehicle_list =
          [\<lparr>get_location = Location 0 0 0, get_velocity = Vector3D (35 / 9) 0 0,
            get_traffic_light_state = Green\<rparr>,
           \<lparr>get_location = Location 1000 0 0, get_velocity = Vector3D 0 (40 / 9) 0,
            get_traffic_light_state = Green\<rparr>],
        intersections = [], spawn_points = [], travelled_frames = DAList.empty,
        destination_indices = DAList.empty, reached_destination = DAList.empty,
        congestion_statistics = DAList.empty, fps = 20\<rparr>
       0 0 0) 1000 0 0) 2000 0 0"

text \<open>Two vehicles, the first routed to the second spawn point, the second without a route;
  a snapshot with the first vehicle far from its destination, and one with it within
  rounding of the destination.\<close>

definition travel_scene :: CarlaEnv where
  "travel_scene =
     \<lparr>vehicle_list = [], intersections = [],
      spawn_points = [\<lparr>location = Location 0 0 0\<rparr>, \<lparr>location = Location 100.4 200.5 0\<rparr>],
      travelled_frames = DAList.update ''vehicle_2'' 0 (DAList.update ''vehicle_1'' 0 DAList.empty),
      destination_indices = DAList.update ''vehicle_1'' 1 DAList.empty,
      reached_destination =
        DAList.update ''vehicle_2'' False (DAList.update ''vehicle_1'' False DAList.empty),
      congestion_statistics = DAList.empty, fps = 20\<rparr>"

definition snapshot_away :: "vehicle list" where
  "snapshot_away =
     [\<lparr>get_location = Location 3 4 0, get_velocity = Vector3D 5 0 0,
       get_traffic_light_state = Green\<rparr>,
      \<lparr>get_location = Location 7 7 0, get_velocity = Vector3D 0 5 0,
       get_traffic_light_state = Red\<rparr>]"

definition snapshot_arrived :: "vehicle list" where
  "snapshot_arrived =
     [\<lparr>get_location = Location 99.6 199.5 0, get_velocity = Vector3D 5 0 0,
       get_traffic_light_state = Green\<rparr>,
      \<lparr>get_location = Location 8 8 0, get_velocity = Vector3D 0 5 0,
       get_traffic_light_state = Red\<rparr>]"

text \<open>A node on a 480 by 640 camera whose model returns four rows: a car low in the frame,
  a dog, a person at the top and a car higher up; a mobile owner and a roadside unit; a
  table with a row labelled \<^verbatim>\<open>vehicle\<close>; and a node whose camera frame is missing at tick 0.\<close>

definition mobile_state :: EntityState where
  "mobile_state = \<lparr>is_rsu = False, state_x = 12, state_y = 30, direction = 90, velocity = 8\<rparr>"

definition rsu_state :: EntityState where
  "rsu_state = \<lparr>is_rsu = True, state_x = 50, state_y = 60, direction = 0, velocity = 0\<rparr>"

definition example_table :: "row list" where
  "example_table =
     [\<lparr>row_name = ''car'', row_xmin = 100, row_ymin = 336, row_xmax = 500, row_ymax = 432,
       row_confidence = 0.9\<rparr>,
      \<lparr>row_name = ''dog'', row_xmin = 10, row_ymin = 20, row_xmax = 30, row_ymax = 40,
       row_confidence = 0.8\<rparr>,
      \<lparr>row_name = ''person'', row_xmin = 50, row_ymin = 0, row_xmax = 60, row_ymax = 10,
       row_confidence = 0.7\<rparr>,
      \<lparr>row_name = ''car'', row_xmin = 200, row_ymin = 100, row_xmax = 300, row_ymax = 200,
       row_confidence = 0.6\<rparr>]"

definition vehicle_table :: "row list" where
  "vehicle_table =
     [\<lparr>row_name = ''car'', row_xmin = 200, row_ymin = 100, row_xmax = 300, row_ymax = 200,
       row_confidence = 0.6\<rparr>,
      \<lparr>row_name = ''vehicle'', row_xmin = 50, row_ymin = 0, row_xmax = 60, row_ymax = 10,
       row_confidence = 0.7\<rparr>]"

definition example_image :: image where
  "example_image = \<lparr>shape = (480, 640, 3), pixels = []\<rparr>"

definition example_node :: Node where
  "example_node =
     \<lparr>node_id = ''n1'',
      read_entity_state = (\<lambda>key now. Inr mobile_state),
      read_images = (\<lambda>key now. Inr example_image),
      forward = (\<lambda>img. example_table)\<rparr>"

definition flaky_node :: Node where
  "flaky_node =
     \<lparr>node_id = ''n1'',
      read_entity_state = (\<lambda>key now. Inr mobile_state),
      read_images = (\<lambda>key now. if now = 0 then Inl DataUnavailable else Inr example_image),
      forward = (\<lambda>img. example_table)\<rparr>"

definition start_pipes :: pipes where
  "start_pipes =
     \<lparr>data_pipe = DAList.empty,
      result_storage_pipe = DAList.update ''yolo_images'' [] DAList.empty\<rparr>"

section \<open>Identifiers\<close>

lemma digit_cases: "d < 10 \<Longrightarrow> d \<in> {0, 1, 2, 3, 4, 5, 6, 7, 8, 9::nat}"
  by auto

lemma digit_char_inj:
  assumes "d < 10" "d' < 10" "digit_char d = digit_char d'"
  shows "d = d'"
  using digit_cases[OF assms(1)] digit_cases[OF assms(2)] assms(3)
  by (auto simp: digit_char_def)

lemma str_nat_nonempty: "str_nat n \<noteq> []"
  by (subst str_nat.simps) simp

lemma str_nat_inj: "str_nat a = str_nat b \<Longrightarrow> a = b"
proof (induction a arbitrary: b rule: str_nat.induct)
  case (1 n)
  show ?case
  proof (cases "n < 10")
    case True
    show ?thesis
    proof (cases "b < 10")
      case b: True
      from 1(2) True b have "digit_char n = digit_char b"
        by (simp add: str_nat.simps[of n] str_nat.simps[of b])
      then show ?thesis using True b digit_char_inj by blast
    next
      case b: False
      from 1(2) True b have "[digit_char n] = str_nat (b div 10) @ [digit_char (b mod 10)]"
        by (simp add: str_nat.simps[of n] str_nat.simps[of b])
      then show ?thesis using str_nat_nonempty[of "b div 10"] by simp
    qed
  next
    case False
    show ?thesis
    proof (cases "b < 10")
      case b: True
      from 1(2) False b have "str_nat (n div 10) @ [digit_char (n mod 10)] = [digit_char b]"
        by (simp add: str_nat.simps[of n] str_nat.simps[of b])
      then show ?thesis using str_nat_nonempty[of "n div 10"] by simp
    next
      case b: False
      from 1(2) False b
      have "str_nat (n div 10) @ [digit_char (n mod 10)] =
            str_nat (b div 10) @ [digit_char (b mod 10)]"
        by (simp add: str_nat.simps[of n] str_nat.simps[of b])
      then have e1: "str_nat (n div 10) = str_nat (b div 10)"
        and e2: "digit_char (n mod 10) = digit_char (b mod 10)"
        by simp_all
      from 1(1)[OF False e1] have "n div 10 = b div 10" .
      moreover from e2 have "n mod 10 = b mod 10" by (intro digit_char_inj) simp_all
      ultimately show ?thesis by (metis div_mult_mod_eq)
    qed
  qed
qed

lemma vehicle_id_inj: "vehicle_id i = vehicle_id j \<Longrightarrow> i = j"
  using str_nat_inj[of "i + 1" "j + 1"] by (simp add: vehicle_id_def)

lemma intersection_id_inj: "intersection_id i = intersection_id j \<Longrightarrow> i = j"
  using str_nat_inj[of "i + 1" "j + 1"] by (simp add: intersection_id_def)

section \<open>Traffic analytics\<close>

lemma get_avg_velocity_cong:
  "vehicle_list env' = vehicle_list env \<Longrightarrow> get_avg_velocity env' x = get_avg_velocity env x"
  by (simp add: get_avg_velocity_def)

lemma congestion_step_Inr:
  assumes "congestion_step sl env i x = Inr env'"
  shows "vehicle_list env' = vehicle_list env"
    and "DAList.lookup (congestion_statistics env') key =
         (if key = intersection_id i \<and> float_less (get_avg_velocity env x) (0.5 * sl)
          then map_option (\<lambda>c. c + 1) (DAList.lookup (congestion_statistics env) key)
          else DAList.lookup (congestion_statistics env) key)"
  using assms
  by (auto simp: congestion_step_def Let_def DAList.lookup_update split: if_splits option.splits)

lemma congestion_step_total:
  assumes "DAList.lookup (congestion_statistics env) (intersection_id i) \<noteq> None"
  shows "\<exists>env'. congestion_step sl env i x = Inr env'"
  using assms by (auto simp: congestion_step_def Let_def split: option.splits)

lemma congestion_loop_result:
  assumes "\<forall>j<length xs. DAList.lookup (congestion_statistics env) (intersection_id (k + j)) \<noteq> None"
  shows "\<exists>env'. congestion_loop sl env (enumerate k xs) = Inr env' \<and>
           vehicle_list env' = vehicle_list env \<and>
           (\<forall>j<length xs.
              DAList.lookup (congestion_statistics env') (intersection_id (k + j)) =
                (if float_less (get_avg_velocity env (xs ! j)) (0.5 * sl)
                 then map_option (\<lambda>c. c + 1) (DAList.lookup (congestion_statistics env) (intersection_id (k + j)))
                 else DAList.lookup (congestion_statistics env) (intersection_id (k + j)))) \<and>
           (\<forall>key. (\<forall>j<length xs. key \<noteq> intersection_id (k + j)) \<longrightarrow>
              DAList.lookup (congestion_statistics env') key =
              DAList.lookup (congestion_statistics env) key)"
  using assms
proof (induction xs arbitrary: k env)
  case Nil
  then show ?case by simp
next
  case (Cons x xs)
  from Cons.prems have "DAList.lookup (congestion_statistics env) (intersection_id k) \<noteq> None"
    by fastforce
  from congestion_step_total[OF this] obtain env1 where
    s: "congestion_step sl env k x = Inr env1" by blast
  note s1 = congestion_step_Inr[OF s]
  have pre: "\<forall>j<length xs. DAList.lookup (congestion_statistics env1) (intersection_id (Suc k + j)) \<noteq> None"
  proof (intro allI impI)
    fix j assume "j < length xs"
    then have "DAList.lookup (congestion_statistics env) (intersection_id (k + Suc j)) \<noteq> None"
      using Cons.prems by auto
    moreover have "intersection_id (Suc k + j) \<noteq> intersection_id k"
      using intersection_id_inj by fastforce
    ultimately show "DAList.lookup (congestion_statistics env1) (intersection_id (Suc k + j)) \<noteq> None"
      by (simp add: s1(2))
  qed
  from Cons.IH[OF pre] obtain env' where
    l: "congestion_loop sl env1 (enumerate (Suc k) xs) = Inr env'"
    and v: "vehicle_list env' = vehicle_list env1"
    and a: "\<And>j. j < length xs \<Longrightarrow>
              DAList.lookup (congestion_statistics env') (intersection_id (Suc k + j)) =
                (if float_less (get_avg_velocity env1 (xs ! j)) (0.5 * sl)
                 then map_option (\<lambda>c. c + 1) (DAList.lookup (congestion_statistics env1) (intersection_id (Suc k + j)))
                 else DAList.lookup (congestion_statistics env1) (intersection_id (Suc k + j)))"
    and b: "\<And>key. (\<forall>j<length xs. key \<noteq> intersection_id (Suc k + j)) \<Longrightarrow>
              DAList.lookup (congestion_statistics env') key =
              DAList.lookup (congestion_statistics env1) key"
    by blast
  have avg: "\<And>y. get_avg_velocity env1 y = get_avg_velocity env y"
    using s1(1) by (rule get_avg_velocity_cong)
  have A: "DAList.lookup (congestion_statistics env') (intersection_id (k + j)) =
                (if float_less (get_avg_velocity env ((x # xs) ! j)) (0.5 * sl)
                 then map_option (\<lambda>c. c + 1) (DAList.lookup (congestion_statistics env) (intersection_id (k + j)))
                 else DAList.lookup (congestion_statistics env) (intersection_id (k + j)))"
    if "j < length (x # xs)" for j
  proof (cases j)
    case 0
    have "\<forall>j<length xs. intersection_id k \<noteq> intersection_id (Suc k + j)"
      using intersection_id_inj by fastforce
    from b[OF this] show ?thesis using 0 by (simp add: s1(2))
  next
    case (Suc j')
    then have j': "j' < length xs" using that by simp
    have ne: "intersection_id (Suc k + j') \<noteq> intersection_id k"
      using intersection_id_inj by fastforce
    show ?thesis using a[OF j'] ne Suc by (simp add: avg s1(2))
  qed
  have B: "DAList.lookup (congestion_statistics env') key =
              DAList.lookup (congestion_statistics env) key"
    if "\<forall>j<length (x # xs). key \<noteq> intersection_id (k + j)" for key
  proof -
    have "key \<noteq> intersection_id k" using that by force
    moreover have "\<forall>j<length xs. key \<noteq> intersection_id (Suc k + j)"
      using that by force
    ultimately show ?thesis using b by (simp add: s1(2))
  qed
  have "congestion_loop sl env (enumerate k (x # xs)) = Inr env'"
    using s l by simp
  moreover have "vehicle_list env' = vehicle_list env" using v s1(1) by simp
  ultimately show ?case using A B by blast
qed

lemma counters_present_add_intersection:
  assumes "counters_present env"
  shows "counters_present (add_intersection env a b c)"
  unfolding counters_present_def
proof (intro allI impI)
  fix i assume "i < length (intersections (add_intersection env a b c))"
  then have "i < length (intersections env) \<or> i = length (intersections env)"
    by (auto simp: add_intersection_def Let_def)
  then show "DAList.lookup (congestion_statistics (add_intersection env a b c)) (intersection_id i) \<noteq> None"
    using assms
    by (auto simp: add_intersection_def Let_def counters_present_def DAList.lookup_update intersection_id_def)
qed

lemma congestion_step_intersections:
  "congestion_step sl env i x = Inr env' \<Longrightarrow> intersections env' = intersections env"
  by (auto simp: congestion_step_def Let_def split: if_splits option.splits)

lemma congestion_loop_intersections:
  "congestion_loop sl env xs = Inr env' \<Longrightarrow> intersections env' = intersections env"
proof (induction xs arbitrary: env)
  case Nil
  then show ?case by simp
next
  case (Cons a xs)
  obtain i x where a: "a = (i, x)" by (cases a)
  from Cons.prems obtain env1 where s: "congestion_step sl env i x = Inr env1"
    and l: "congestion_loop sl env1 xs = Inr env'"
    by (auto simp: a split: sum.splits)
  from Cons.IH[OF l] congestion_step_intersections[OF s] show ?case by simp
qed

text \<open>The counters stay present through a call, so every state reached from an empty
  environment by \<^verbatim>\<open>add_intersection\<close> and \<^verbatim>\<open>increment_congestion_statistics\<close> has them.\<close>

lemma counters_present_increment:
  assumes "counters_present env" "increment_congestion_statistics env sl = Inr env'"
  shows "counters_present env'"
proof -
  from assms(1) have pre: "\<forall>j<length (intersections env).
      DAList.lookup (congestion_statistics env) (intersection_id (0 + j)) \<noteq> None"
    by (simp add: counters_present_def)
  from congestion_loop_result[OF pre, of sl] assms(2)
  have a: "\<forall>j<length (intersections env).
              DAList.lookup (congestion_statistics env') (intersection_id j) =
                (if float_less (get_avg_velocity env (intersections env ! j)) (0.5 * sl)
                 then map_option (\<lambda>c. c + 1)
                        (DAList.lookup (congestion_statistics env) (intersection_id j))
                 else DAList.lookup (congestion_statistics env) (intersection_id j))"
    by (auto simp: increment_congestion_statistics_def)
  have i: "intersections env' = intersections env"
    using assms(2) by (simp add: increment_congestion_statistics_def congestion_loop_intersections)
  show ?thesis
    unfolding counters_present_def i
  proof (intro allI impI)
    fix j assume j: "j < length (intersections env)"
    with pre have "DAList.lookup (congestion_statistics env) (intersection_id j) \<noteq> None"
      by simp
    with a j show "DAList.lookup (congestion_statistics env') (intersection_id j) \<noteq> None"
      by auto
  qed
qed

text \<open>
  Claim C2. When every intersection has its counter, \<^verbatim>\<open>increment_congestion_statistics\<close>
  returns, and the counter of an intersection is one more than before when the average
  velocity there is finite and strictly below half the speed limit, and is as before
  otherwise: an average at or above the threshold and the infinite average of an
  intersection without qualifying vehicles leave it alone. No other key changes.
\<close>

theorem update_congestion_counts:
  assumes "counters_present env"
  shows "\<exists>env'. increment_congestion_statistics env speed_limit = Inr env' \<and>
           (\<forall>i<length (intersections env).
              DAList.lookup (congestion_statistics env') (intersection_id i) =
                (case get_avg_velocity env (intersections env ! i) of
                   Finite v \<Rightarrow>
                     if v < speed_limit / 2
                     then map_option (\<lambda>c. c + 1)
                            (DAList.lookup (congestion_statistics env) (intersection_id i))
                     else DAList.lookup (congestion_statistics env) (intersection_id i)
                 | Infinity \<Rightarrow> DAList.lookup (congestion_statistics env) (intersection_id i))) \<and>
           (\<forall>key. key \<notin> intersection_id ` {..<length (intersections env)} \<longrightarrow>
              DAList.lookup (congestion_statistics env') key =
              DAList.lookup (congestion_statistics env) key)"
proof -
  from assms have "\<forall>j<length (intersections env).
      DAList.lookup (congestion_statistics env) (intersection_id (0 + j)) \<noteq> None"
    by (simp add: counters_present_def)
  from congestion_loop_result[OF this, of speed_limit] obtain env' where
    l: "congestion_loop speed_limit env (enumerate 0 (intersections env)) = Inr env'"
    and a: "\<And>j. j < length (intersections env) \<Longrightarrow>
              DAList.lookup (congestion_statistics env') (intersection_id j) =
                (if float_less (get_avg_velocity env (intersections env ! j)) (0.5 * speed_limit)
                 then map_option (\<lambda>c. c + 1) (DAList.lookup (congestion_statistics env) (intersection_id j))
                 else DAList.lookup (congestion_statistics env) (intersection_id j))"
    and b: "\<And>key. (\<forall>j<length (intersections env). key \<noteq> intersection_id j) \<Longrightarrow>
              DAList.lookup (congestion_statistics env') key =
              DAList.lookup (congestion_statistics env) key"
    by auto
  have "increment_congestion_statistics env speed_limit = Inr env'"
    using l by (simp add: increment_congestion_statistics_def)
  moreover have "\<forall>i<length (intersections env).
              DAList.lookup (congestion_statistics env') (intersection_id i) =
                (case get_avg_velocity env (intersections env ! i) of
                   Finite v \<Rightarrow>
                     if v < speed_limit / 2
                     then map_option (\<lambda>c. c + 1)
                            (DAList.lookup (congestion_statistics env) (intersection_id i))
                     else DAList.lookup (congestion_statistics env) (intersection_id i)
                 | Infinity \<Rightarrow> DAList.lookup (congestion_statistics env) (intersection_id i))"
    using a by (auto split: pyfloat.splits)
  moreover have "\<forall>key. key \<notin> intersection_id ` {..<length (intersections env)} \<longrightarrow>
              DAList.lookup (congestion_statistics env') key =
              DAList.lookup (congestion_statistics env) key"
    using b by auto
  ultimately show ?thesis by blast
qed


lemma example_scene_fields:
  "intersections example_scene = [Location 0 0 0, Location 1000 0 0, Location 2000 0 0]"
  "DAList.lookup (congestion_statistics example_scene) ''intersection_1'' = Some 0"
  "DAList.lookup (congestion_statistics example_scene) ''intersection_2'' = Some 0"
  "DAList.lookup (congestion_statistics example_scene) ''intersection_3'' = Some 0"
  by (simp_all add: example_scene_def add_intersection_def Let_def str_nat.simps digit_char_def
      DAList.lookup_update)

lemma example_scene_avg:
  "get_avg_velocity example_scene (Location 0 0 0) = Finite 14"
  "get_avg_velocity example_scene (Location 1000 0 0) = Finite 16"
  "get_avg_velocity example_scene (Location 2000 0 0) = Infinity"
proof -
  have s: "sqrt 1000000 = 1000" "sqrt 4000000 = 2000"
    by (rule real_sqrt_unique, simp_all)+
  have h: "hypot (35 / 9) 0 = 35 / 9" "hypot 0 (40 / 9) = 40 / 9"
    by (simp_all add: hypot_def)
  have v: "vehicle_list example_scene =
          [\<lparr>get_location = Location 0 0 0, get_velocity = Vector3D (35 / 9) 0 0,
            get_traffic_light_state = Green\<rparr>,
           \<lparr>get_location = Location 1000 0 0, get_velocity = Vector3D 0 (40 / 9) 0,
            get_traffic_light_state = Green\<rparr>]"
    by (simp add: example_scene_def add_intersection_def Let_def)
  show "get_avg_velocity example_scene (Location 0 0 0) = Finite 14"
    "get_avg_velocity example_scene (Location 1000 0 0) = Finite 16"
    "get_avg_velocity example_scene (Location 2000 0 0) = Infinity"
    by (simp_all add: get_avg_velocity_def v is_in_intersection_def distance_def h s)
qed

text \<open>With the default speed limit 30: the intersection at average 14 is counted, the one
  at 16 and the one without vehicles are not.\<close>

theorem update_congestion_counts_example:
  "counters_present example_scene \<and>
   (\<exists>env'. increment_congestion_statistics example_scene 30 = Inr env' \<and>
      DAList.lookup (congestion_statistics env') ''intersection_1'' = Some 1 \<and>
      DAList.lookup (congestion_statistics env') ''intersection_2'' = Some 0 \<and>
      DAList.lookup (congestion_statistics env') ''intersection_3'' = Some 0)"
proof -
  have ids: "intersection_id 0 = ''intersection_1''" "intersection_id (Suc 0) = ''intersection_2''"
    "intersection_id 2 = ''intersection_3''"
    by (simp_all add: intersection_id_def str_nat.simps digit_char_def)
  have cp: "counters_present example_scene"
    unfolding example_scene_def
    by (intro counters_present_add_intersection) (simp add: counters_present_def)
  from update_congestion_counts[OF cp, of 30] obtain env' where
    r: "increment_congestion_statistics example_scene 30 = Inr env'"
    and a: "\<forall>i<length (intersections example_scene).
              DAList.lookup (congestion_statistics env') (intersection_id i) =
                (case get_avg_velocity example_scene (intersections example_scene ! i) of
                   Finite v \<Rightarrow>
                     if v < 30 / 2
                     then map_option (\<lambda>c. c + 1)
                            (DAList.lookup (congestion_statistics example_scene) (intersection_id i))
                     else DAList.lookup (congestion_statistics example_scene) (intersection_id i)
                 | Infinity \<Rightarrow> DAList.lookup (congestion_statistics example_scene) (intersection_id i))"
    by blast
  from a have "DAList.lookup (congestion_statistics env') ''intersection_1'' = Some 1"
    by (drule_tac x = 0 in spec) (simp add: example_scene_fields example_scene_avg ids)
  moreover from a have "DAList.lookup (congestion_statistics env') ''intersection_2'' = Some 0"
    by (drule_tac x = 1 in spec) (simp add: example_scene_fields example_scene_avg ids)
  moreover from a have "DAList.lookup (congestion_statistics env') ''intersection_3'' = Some 0"
    by (drule_tac x = 2 in spec) (simp add: example_scene_fields example_scene_avg ids)
  ultimately show ?thesis using cp r by blast
qed

section \<open>Travel accounting\<close>

lemma travel_step_static:
  "destination_indices (state_after (travel_step env i v)) = destination_indices env"
  "spawn_points (state_after (travel_step env i v)) = spawn_points env"
  "fps (state_after (travel_step env i v)) = fps env"
  by (auto simp: travel_step_def Let_def split: option.splits sum.splits)

lemma travel_step_other_key:
  assumes "key \<noteq> vehicle_id i"
  shows "DAList.lookup (travelled_frames (state_after (travel_step env i v))) key =
         DAList.lookup (travelled_frames env) key"
    and "DAList.lookup (reached_destination (state_after (travel_step env i v))) key =
         DAList.lookup (reached_destination env) key"
  using assms
  by (auto simp: travel_step_def Let_def DAList.lookup_update split: option.splits sum.splits)

lemma travel_step_reached:
  assumes "DAList.lookup (reached_destination env) key = Some True"
  shows "DAList.lookup (reached_destination (state_after (travel_step env i v))) key = Some True"
    and "DAList.lookup (travelled_frames (state_after (travel_step env i v))) key =
         DAList.lookup (travelled_frames env) key"
  using assms
  by (auto simp: travel_step_def Let_def DAList.lookup_update split: option.splits sum.splits)

lemma travel_step_unrouted:
  assumes "DAList.lookup (destination_indices env) key = None"
  shows "DAList.lookup (travelled_frames (state_after (travel_step env i v))) key =
         DAList.lookup (travelled_frames env) key"
  using assms
  by (auto simp: travel_step_def Let_def DAList.lookup_update split: option.splits sum.splits)

lemma travel_loop_static:
  "destination_indices (state_after (travel_loop env xs)) = destination_indices env \<and>
   spawn_points (state_after (travel_loop env xs)) = spawn_points env \<and>
   fps (state_after (travel_loop env xs)) = fps env"
proof (induction xs arbitrary: env)
  case Nil
  then show ?case by simp
next
  case (Cons a xs)
  obtain i v where a: "a = (i, v)" by (cases a)
  show ?case
  proof (cases "travel_step env i v")
    case (Inl e)
    then show ?thesis using travel_step_static[of env i v] by (simp add: a)
  next
    case (Inr env')
    then show ?thesis using travel_step_static[of env i v] Cons.IH[of env'] by (simp add: a)
  qed
qed

lemma travel_loop_reached:
  assumes "DAList.lookup (reached_destination env) key = Some True"
  shows "DAList.lookup (reached_destination (state_after (travel_loop env xs))) key = Some True \<and>
         DAList.lookup (travelled_frames (state_after (travel_loop env xs))) key =
         DAList.lookup (travelled_frames env) key"
  using assms
proof (induction xs arbitrary: env)
  case Nil
  then show ?case by simp
next
  case (Cons a xs)
  obtain i v where a: "a = (i, v)" by (cases a)
  note st = travel_step_reached[OF Cons.prems, of i v]
  show ?case
  proof (cases "travel_step env i v")
    case (Inl e)
    then show ?thesis using st by (simp add: a)
  next
    case (Inr env')
    then show ?thesis using st Cons.IH[of env'] by (simp add: a)
  qed
qed

lemma travel_loop_unrouted:
  assumes "DAList.lookup (destination_indices env) key = None"
  shows "DAList.lookup (travelled_frames (state_after (travel_loop env xs))) key =
         DAList.lookup (travelled_frames env) key"
  using assms
proof (induction xs arbitrary: env)
  case Nil
  then show ?case by simp
next
  case (Cons a xs)
  obtain i v where a: "a = (i, v)" by (cases a)
  note st = travel_step_unrouted[OF Cons.prems, of i v] travel_step_static(1)[of env i v]
  show ?case
  proof (cases "travel_step env i v")
    case (Inl e)
    then show ?thesis using st by (simp add: a)
  next
    case (Inr env')
    then show ?thesis using st Cons.IH[of env'] Cons.prems by (simp add: a)
  qed
qed

lemma pass_snapshot_fields:
  "destination_indices (state_after (increment_travelled_frames (env\<lparr>vehicle_list := s\<rparr>))) =
     destination_indices env"
  "fps (state_after (increment_travelled_frames (env\<lparr>vehicle_list := s\<rparr>))) = fps env"
  using travel_loop_static[of "env\<lparr>vehicle_list := s\<rparr>" "enumerate 0 s"]
  by (simp_all add: increment_travelled_frames_def)

lemma travel_run_static:
  "destination_indices (travel_run env snapshots) = destination_indices env \<and>
   fps (travel_run env snapshots) = fps env"
  by (induction snapshots arbitrary: env) (simp_all add: pass_snapshot_fields)

text \<open>
  Claim C3. Once \<^verbatim>\<open>reached_destination\<close> holds \<open>True\<close> for a vehicle id, it holds \<open>True\<close>
  after any further sequence of calls of \<^verbatim>\<open>increment_travelled_frames\<close>, whatever the
  vehicles do in between and whether or not a call raises, and \<^verbatim>\<open>travelled_frames\<close> of
  that id stays what it was.
\<close>

theorem reached_destination_permanent:
  assumes "DAList.lookup (reached_destination env) key = Some True"
  shows "DAList.lookup (reached_destination (travel_run env snapshots)) key = Some True \<and>
         DAList.lookup (travelled_frames (travel_run env snapshots)) key =
         DAList.lookup (travelled_frames env) key"
  using assms
proof (induction snapshots arbitrary: env)
  case Nil
  then show ?case by simp
next
  case (Cons s snapshots)
  let ?env1 = "state_after (increment_travelled_frames (env\<lparr>vehicle_list := s\<rparr>))"
  have "DAList.lookup (reached_destination (env\<lparr>vehicle_list := s\<rparr>)) key = Some True"
    using Cons.prems by simp
  from travel_loop_reached[OF this, of "enumerate 0 s"]
  have 1: "DAList.lookup (reached_destination ?env1) key = Some True"
    and 2: "DAList.lookup (travelled_frames ?env1) key = DAList.lookup (travelled_frames env) key"
    by (simp_all add: increment_travelled_frames_def)
  from Cons.IH[OF 1] 2 show ?case by simp
qed

lemma round_examples:
  "round_py (498 / 5) = 100" "round_py (399 / 2) = 200" "round_py (502 / 5) = 100"
  "round_py (401 / 2) = 200" "round_py 3 = 3" "round_py 4 = 4" "round_py 0 = 0"
  by (simp_all add: round_py_def Let_def)

lemma example_ids: "vehicle_id 0 = ''vehicle_1''" "vehicle_id (Suc 0) = ''vehicle_2''"
  by (simp_all add: vehicle_id_def str_nat.simps digit_char_def)

lemmas travel_eval =
  increment_travelled_frames_def travel_scene_def snapshot_away_def snapshot_arrived_def
  travel_step_def Let_def example_ids list_get_def round_examples DAList.lookup_update

lemma run_arrives:
  "DAList.lookup (reached_destination (travel_run travel_scene [snapshot_away, snapshot_arrived]))
     ''vehicle_1'' = Some True"
  "DAList.lookup (travelled_frames (travel_run travel_scene [snapshot_away, snapshot_arrived]))
     ''vehicle_1'' = Some 1"
  by (simp_all add: travel_eval)

text \<open>The first vehicle arrives in the second pass with one travelled frame; three more
  passes, the last of them at the destination again, change neither the flag nor the count.\<close>

theorem reached_destination_permanent_example:
  "DAList.lookup (reached_destination (travel_run travel_scene [snapshot_away, snapshot_arrived]))
     ''vehicle_1'' = Some True \<and>
   DAList.lookup (travelled_frames (travel_run travel_scene [snapshot_away, snapshot_arrived]))
     ''vehicle_1'' = Some 1 \<and>
   DAList.lookup
     (reached_destination
        (travel_run (travel_run travel_scene [snapshot_away, snapshot_arrived])
           [snapshot_away, snapshot_away, snapshot_arrived]))
     ''vehicle_1'' = Some True \<and>
   DAList.lookup
     (travelled_frames
        (travel_run (travel_run travel_scene [snapshot_away, snapshot_arrived])
           [snapshot_away, snapshot_away, snapshot_arrived]))
     ''vehicle_1'' = Some 1"
  using reached_destination_permanent
          [OF run_arrives(1), of "[snapshot_away, snapshot_away, snapshot_arrived]"]
        run_arrives
  by simp

lemma travel_run_unrouted:
  assumes "DAList.lookup (destination_indices env) key = None"
  shows "DAList.lookup (travelled_frames (travel_run env snapshots)) key =
         DAList.lookup (travelled_frames env) key"
  using assms
proof (induction snapshots arbitrary: env)
  case Nil
  then show ?case by simp
next
  case (Cons s snapshots)
  let ?env1 = "state_after (increment_travelled_frames (env\<lparr>vehicle_list := s\<rparr>))"
  have "DAList.lookup (destination_indices (env\<lparr>vehicle_list := s\<rparr>)) key = None"
    using Cons.prems by simp
  from travel_loop_unrouted[OF this, of "enumerate 0 s"]
  have 2: "DAList.lookup (travelled_frames ?env1) key = DAList.lookup (travelled_frames env) key"
    by (simp add: increment_travelled_frames_def)
  have 1: "DAList.lookup (destination_indices ?env1) key = None"
    using Cons.prems by (simp add: pass_snapshot_fields)
  from Cons.IH[OF 1] 2 show ?case by simp
qed

lemma travel_times_loop_lookup:
  assumes "f \<noteq> 0" "distinct (map fst xs)"
  shows "\<exists>tt. travel_times_loop f xs acc = Inr tt \<and>
           (\<forall>k. DAList.lookup tt k =
              (case map_of xs k of
                 Some n \<Rightarrow> Some (real_of_int n / real_of_int f)
               | None \<Rightarrow> DAList.lookup acc k))"
  using assms(2)
proof (induction xs arbitrary: acc)
  case Nil
  then show ?case by simp
next
  case (Cons a xs)
  obtain k0 n0 where a: "a = (k0, n0)" by (cases a)
  from Cons.prems a have d: "distinct (map fst xs)" and nin: "k0 \<notin> fst ` set xs" by auto
  from nin have none: "map_of xs k0 = None" by (simp add: map_of_eq_None_iff)
  from Cons.IH[OF d, of "DAList.update k0 (real_of_int n0 / real_of_int f) acc"]
  obtain tt where l: "travel_times_loop f xs (DAList.update k0 (real_of_int n0 / real_of_int f) acc) = Inr tt"
    and t: "\<And>k. DAList.lookup tt k =
              (case map_of xs k of
                 Some n \<Rightarrow> Some (real_of_int n / real_of_int f)
               | None \<Rightarrow> DAList.lookup (DAList.update k0 (real_of_int n0 / real_of_int f) acc) k)"
    by blast
  have "travel_times_loop f (a # xs) acc = Inr tt" using l assms(1) by (simp add: a)
  moreover have "\<forall>k. DAList.lookup tt k =
              (case map_of (a # xs) k of
                 Some n \<Rightarrow> Some (real_of_int n / real_of_int f)
               | None \<Rightarrow> DAList.lookup acc k)"
    using none by (auto simp: t a DAList.lookup_update split: option.splits)
  ultimately show ?case by blast
qed

lemma calculate_travel_times_lookup:
  assumes "fps env \<noteq> 0"
  shows "\<exists>tt. calculate_travel_times env = Inr tt \<and>
           (\<forall>k. DAList.lookup tt k =
                map_option (\<lambda>n. real_of_int n / real_of_int (fps env))
                  (DAList.lookup (travelled_frames env) k))"
proof -
  from travel_times_loop_lookup[OF assms DAList.impl_of_distinct, of "travelled_frames env" DAList.empty]
  obtain tt where l: "travel_times_loop (fps env) (DAList.impl_of (travelled_frames env)) DAList.empty = Inr tt"
    and t: "\<forall>k. DAList.lookup tt k =
              (case map_of (DAList.impl_of (travelled_frames env)) k of
                 Some n \<Rightarrow> Some (real_of_int n / real_of_int (fps env))
               | None \<Rightarrow> DAList.lookup DAList.empty k)"
    by blast
  have "calculate_travel_times env = Inr tt"
    using l by (simp add: calculate_travel_times_def)
  moreover have "\<forall>k. DAList.lookup tt k =
                map_option (\<lambda>n. real_of_int n / real_of_int (fps env))
                  (DAList.lookup (travelled_frames env) k)"
  proof
    fix k
    have "map_of (DAList.impl_of (travelled_frames env)) k = DAList.lookup (travelled_frames env) k"
      by (simp add: DAList.lookup.rep_eq)
    with t[rule_format, of k]
    show "DAList.lookup tt k =
                map_option (\<lambda>n. real_of_int n / real_of_int (fps env))
                  (DAList.lookup (travelled_frames env) k)"
      by (simp split: option.splits)
  qed
  ultimately show ?thesis by blast
qed

lemma travel_step_unrouted_silent:
  "DAList.lookup (destination_indices env) (vehicle_id i) = None \<Longrightarrow>
   travel_step env i vehicle = Inr env"
  by (simp add: travel_step_def)

text \<open>
  Claim C9, for a non-zero frame rate. For a vehicle id without an entry in
  \<^verbatim>\<open>destination_indices\<close> whose counter is 0, at every state of a run of calls of
  \<^verbatim>\<open>increment_travelled_frames\<close> the iteration of that vehicle returns without raising and
  without writing, the counter is still 0, and, when \<^verbatim>\<open>fps\<close> is not zero,
  \<^verbatim>\<open>calculate_travel_times\<close> returns a dictionary that gives the id the travel time 0.
\<close>

theorem unrouted_vehicle_not_accounted:
  assumes "DAList.lookup (destination_indices env) key = None"
    and "DAList.lookup (travelled_frames env) key = Some 0"
  shows "(\<forall>i vehicle. vehicle_id i = key \<longrightarrow>
            travel_step (travel_run env snapshots) i vehicle = Inr (travel_run env snapshots)) \<and>
         DAList.lookup (travelled_frames (travel_run env snapshots)) key = Some 0 \<and>
         (fps env \<noteq> 0 \<longrightarrow>
            (\<exists>travel_times.
               calculate_travel_times (travel_run env snapshots) = Inr travel_times \<and>
               DAList.lookup travel_times key = Some 0))"
proof (intro conjI allI impI)
  fix i vehicle assume "vehicle_id i = key"
  with assms(1)
  have "DAList.lookup (destination_indices (travel_run env snapshots)) (vehicle_id i) = None"
    by (simp add: travel_run_static)
  then show "travel_step (travel_run env snapshots) i vehicle = Inr (travel_run env snapshots)"
    by (rule travel_step_unrouted_silent)
next
  show tf: "DAList.lookup (travelled_frames (travel_run env snapshots)) key = Some 0"
    using travel_run_unrouted[OF assms(1)] assms(2) by simp
  assume "fps env \<noteq> 0"
  then have "fps (travel_run env snapshots) \<noteq> 0"
    by (simp add: travel_run_static)
  from calculate_travel_times_lookup[OF this] tf
  show "\<exists>travel_times.
               calculate_travel_times (travel_run env snapshots) = Inr travel_times \<and>
               DAList.lookup travel_times key = Some 0"
    by auto
qed

text \<open>With \<^verbatim>\<open>fps = 0\<close> the travel time of the unrouted vehicle is not defined:
  \<^verbatim>\<open>calculate_travel_times\<close> raises.\<close>

theorem unrouted_vehicle_zero_fps_counterexample:
  "DAList.lookup (destination_indices (travel_scene\<lparr>fps := 0\<rparr>)) ''vehicle_2'' = None \<and>
   DAList.lookup (travelled_frames (travel_scene\<lparr>fps := 0\<rparr>)) ''vehicle_2'' = Some 0 \<and>
   calculate_travel_times (travel_run (travel_scene\<lparr>fps := 0\<rparr>) [snapshot_away]) =
     Inl ZeroDivisionError"
  by (simp add: calculate_travel_times_def travel_eval DAList.update.rep_eq DAList.empty.rep_eq)

text \<open>The second vehicle of the example has no route: its iteration is a silent skip after
  two passes, its counter is 0 and so is its travel time at 20 frames per second.\<close>

theorem unrouted_vehicle_not_accounted_example:
  "DAList.lookup (destination_indices travel_scene) ''vehicle_2'' = None \<and>
   DAList.lookup (travelled_frames travel_scene) ''vehicle_2'' = Some 0 \<and>
   vehicle_id 1 = ''vehicle_2'' \<and>
   fps travel_scene \<noteq> 0 \<and>
   travel_step (travel_run travel_scene [snapshot_away, snapshot_arrived]) 1
       \<lparr>get_location = Location 8 8 0, get_velocity = Vector3D 0 5 0,
        get_traffic_light_state = Red\<rparr> =
     Inr (travel_run travel_scene [snapshot_away, snapshot_arrived]) \<and>
   DAList.lookup (travelled_frames (travel_run travel_scene [snapshot_away, snapshot_arrived]))
     ''vehicle_2'' = Some 0 \<and>
   (\<exists>travel_times.
      calculate_travel_times (travel_run travel_scene [snapshot_away, snapshot_arrived]) =
        Inr travel_times \<and>
      DAList.lookup travel_times ''vehicle_2'' = Some 0)"
proof -
  have h: "DAList.lookup (destination_indices travel_scene) ''vehicle_2'' = None"
    "DAList.lookup (travelled_frames travel_scene) ''vehicle_2'' = Some 0"
    by (simp_all add: travel_scene_def DAList.lookup_update)
  have k: "vehicle_id 1 = ''vehicle_2''" "fps travel_scene \<noteq> 0"
    by (simp_all add: travel_scene_def example_ids)
  from unrouted_vehicle_not_accounted[OF h, of "[snapshot_away, snapshot_arrived]"] h k
  show ?thesis by blast
qed

lemma travel_step_arrival:
  assumes "DAList.lookup (destination_indices env) (vehicle_id i) = Some d"
    and "list_get (spawn_points env) d = Inr sp"
    and "round_py (loc_x (get_location v)) = round_py (loc_x (location sp))"
    and "round_py (loc_y (get_location v)) = round_py (loc_y (location sp))"
  shows "travel_step env i v =
           Inr (env\<lparr>reached_destination :=
                      DAList.update (vehicle_id i) True (reached_destination env)\<rparr>)"
  using assms by (simp add: travel_step_def Let_def)

lemma travel_loop_arrival:
  assumes "k \<le> i" "i < k + length vs"
    and "DAList.lookup (destination_indices env) (vehicle_id i) = Some d"
    and "list_get (spawn_points env) d = Inr sp"
    and "round_py (loc_x (get_location (vs ! (i - k)))) = round_py (loc_x (location sp))"
    and "round_py (loc_y (get_location (vs ! (i - k)))) = round_py (loc_y (location sp))"
  shows "DAList.lookup (travelled_frames (state_after (travel_loop env (enumerate k vs)))) (vehicle_id i) =
         DAList.lookup (travelled_frames env) (vehicle_id i) \<and>
         (\<forall>env'. travel_loop env (enumerate k vs) = Inr env' \<longrightarrow>
            DAList.lookup (reached_destination env') (vehicle_id i) = Some True)"
  using assms
proof (induction vs arbitrary: k env)
  case Nil
  then show ?case by simp
next
  case (Cons v vs)
  show ?case
  proof (cases "i = k")
    case True
    let ?env1 = "env\<lparr>reached_destination :=
                      DAList.update (vehicle_id i) True (reached_destination env)\<rparr>"
    have s: "travel_step env k v = Inr ?env1"
      using travel_step_arrival[of env i d sp v] Cons.prems True by simp
    have r: "DAList.lookup (reached_destination ?env1) (vehicle_id i) = Some True"
      by simp
    from travel_loop_reached[OF r, of "enumerate (Suc k) vs"]
    have "DAList.lookup (reached_destination (state_after (travel_loop ?env1 (enumerate (Suc k) vs))))
            (vehicle_id i) = Some True"
      and "DAList.lookup (travelled_frames (state_after (travel_loop ?env1 (enumerate (Suc k) vs))))
            (vehicle_id i) = DAList.lookup (travelled_frames env) (vehicle_id i)"
      by simp_all
    then show ?thesis using s by auto
  next
    case False
    then have ki: "Suc k \<le> i" and ne: "vehicle_id i \<noteq> vehicle_id k"
      using Cons.prems(1) vehicle_id_inj by auto
    note other = travel_step_other_key[OF ne, of env v]
    note static = travel_step_static[of env k v]
    show ?thesis
    proof (cases "travel_step env k v")
      case (Inl e)
      then show ?thesis using other by simp
    next
      case (Inr env1)
      have nth: "(v # vs) ! (i - k) = vs ! (i - Suc k)"
        using ki by (simp add: nth_Cons')
      have "DAList.lookup (travelled_frames (state_after (travel_loop env1 (enumerate (Suc k) vs)))) (vehicle_id i) =
         DAList.lookup (travelled_frames env1) (vehicle_id i) \<and>
         (\<forall>env'. travel_loop env1 (enumerate (Suc k) vs) = Inr env' \<longrightarrow>
            DAList.lookup (reached_destination env') (vehicle_id i) = Some True)"
      proof (rule Cons.IH[OF ki])
        show "i < Suc k + length vs" using Cons.prems(2) by simp
        show "DAList.lookup (destination_indices env1) (vehicle_id i) = Some d"
          using static(1) Inr Cons.prems(3) by simp
        show "list_get (spawn_points env1) d = Inr sp"
          using static(2) Inr Cons.prems(4) by simp
        show "round_py (loc_x (get_location (vs ! (i - Suc k)))) = round_py (loc_x (location sp))"
          using Cons.prems(5) nth by simp
        show "round_py (loc_y (get_location (vs ! (i - Suc k)))) = round_py (loc_y (location sp))"
          using Cons.prems(6) nth by simp
      qed
      then show ?thesis using other Inr by simp
    qed
  qed
qed

text \<open>
  Claim C10. In a call of \<^verbatim>\<open>increment_travelled_frames\<close> where the rounded position of a
  routed vehicle equals its rounded destination, the vehicle's \<^verbatim>\<open>travelled_frames\<close> is not
  incremented, and when the call returns its \<^verbatim>\<open>reached_destination\<close> flag is \<open>True\<close>:
  the flag is written before it is tested, so the tick of arrival is not counted.
\<close>

theorem arrival_tick_not_counted:
  assumes "i < length (vehicle_list env)"
    and "DAList.lookup (destination_indices env) (vehicle_id i) = Some d"
    and "list_get (spawn_points env) d = Inr sp"
    and "round_py (loc_x (get_location (vehicle_list env ! i))) = round_py (loc_x (location sp))"
    and "round_py (loc_y (get_location (vehicle_list env ! i))) = round_py (loc_y (location sp))"
  shows "DAList.lookup (travelled_frames (state_after (increment_travelled_frames env))) (vehicle_id i) =
         DAList.lookup (travelled_frames env) (vehicle_id i) \<and>
         (\<forall>env'. increment_travelled_frames env = Inr env' \<longrightarrow>
            DAList.lookup (reached_destination env') (vehicle_id i) = Some True)"
  unfolding increment_travelled_frames_def
  using travel_loop_arrival[of 0 i "vehicle_list env" env d sp] assms by simp

text \<open>After one pass away from the destination the flag is \<open>False\<close> and the count is 1;
  the pass in which the vehicle arrives sets the flag and leaves the count at 1.\<close>

theorem arrival_tick_not_counted_example:
  "DAList.lookup (reached_destination (travel_run travel_scene [snapshot_away])) ''vehicle_1'' =
     Some False \<and>
   DAList.lookup (travelled_frames (travel_run travel_scene [snapshot_away])) ''vehicle_1'' =
     Some 1 \<and>
   (\<exists>env'. increment_travelled_frames
             ((travel_run travel_scene [snapshot_away])\<lparr>vehicle_list := snapshot_arrived\<rparr>) =
             Inr env' \<and>
           DAList.lookup (reached_destination env') ''vehicle_1'' = Some True \<and>
           DAList.lookup (travelled_frames env') ''vehicle_1'' = Some 1)"
proof -
  let ?env = "(travel_run travel_scene [snapshot_away])\<lparr>vehicle_list := snapshot_arrived\<rparr>"
  have before: "DAList.lookup (reached_destination (travel_run travel_scene [snapshot_away]))
      ''vehicle_1'' = Some False"
    "DAList.lookup (travelled_frames (travel_run travel_scene [snapshot_away])) ''vehicle_1'' =
     Some 1"
    by (simp_all add: travel_eval)
  have h: "0 < length (vehicle_list ?env)"
    "DAList.lookup (destination_indices ?env) (vehicle_id 0) = Some 1"
    "list_get (spawn_points ?env) 1 = Inr \<lparr>location = Location 100.4 200.5 0\<rparr>"
    "round_py (loc_x (get_location (vehicle_list ?env ! 0))) =
       round_py (loc_x (location \<lparr>location = Location 100.4 200.5 0\<rparr>))"
    "round_py (loc_y (get_location (vehicle_list ?env ! 0))) =
       round_py (loc_y (location \<lparr>location = Location 100.4 200.5 0\<rparr>))"
    by (simp_all add: travel_eval)
  obtain env' where r: "increment_travelled_frames ?env = Inr env'"
    by (simp add: travel_eval)
  from arrival_tick_not_counted[OF h] r before
  have "DAList.lookup (reached_destination env') ''vehicle_1'' = Some True \<and>
        DAList.lookup (travelled_frames env') ''vehicle_1'' = Some 1"
    by (simp add: example_ids)
  with r before show ?thesis by blast
qed

section \<open>The detection reducer\<close>

lemma summarize_loop_eq:
  "summarize_loop nid now im_shape state xs dets =
     dets @ map (\<lambda>(i, r). make_detection nid now i r)
              (filter (\<lambda>(i, r). survives im_shape state r) xs)"
  by (induction xs arbitrary: dets) (auto simp: survives_def Let_def)

lemma detections_summarize_output:
  "detections (summarize_output self now raw_output im_shape state) =
     map (\<lambda>(i, r). make_detection (node_id self) now i r)
       (filter (\<lambda>(i, r). survives im_shape state r) (enumerate 0 raw_output))"
  by (simp add: summarize_output_def summarize_loop_eq)

lemma detection_id_in_output:
  assumes "i < length raw_output"
  shows "str_nat i \<in> detection_id ` set (detections (summarize_output self now raw_output im_shape state))
         \<longleftrightarrow> survives im_shape state (raw_output ! i)"
proof
  assume "str_nat i \<in> detection_id ` set (detections (summarize_output self now raw_output im_shape state))"
  then obtain j r where m: "(j, r) \<in> set (enumerate 0 raw_output)" and s: "survives im_shape state r"
    and e: "detection_id (make_detection (node_id self) now j r) = str_nat i"
    by (auto simp: detections_summarize_output)
  from e have "j = i" using str_nat_inj by (simp add: make_detection_def)
  with m have "r = raw_output ! i" by (simp add: in_set_enumerate_eq)
  with s show "survives im_shape state (raw_output ! i)" by simp
next
  assume s: "survives im_shape state (raw_output ! i)"
  have "(i, raw_output ! i) \<in> set (enumerate 0 raw_output)"
    using assms by (simp add: in_set_enumerate_eq)
  with s have "make_detection (node_id self) now i (raw_output ! i)
      \<in> set (detections (summarize_output self now raw_output im_shape state))"
    by (force simp: detections_summarize_output)
  then have "detection_id (make_detection (node_id self) now i (raw_output ! i))
      \<in> detection_id ` set (detections (summarize_output self now raw_output im_shape state))"
    by (rule imageI)
  then show "str_nat i \<in> detection_id ` set (detections (summarize_output self now raw_output im_shape state))"
    by (simp add: make_detection_def)
qed

lemma record_in_output:
  assumes "i < length raw_output" "survives im_shape state (raw_output ! i)"
  shows "make_detection (node_id self) now i (raw_output ! i)
      \<in> set (detections (summarize_output self now raw_output im_shape state))"
proof -
  have "(i, raw_output ! i) \<in> set (enumerate 0 raw_output)"
    using assms by (simp add: in_set_enumerate_eq)
  with assms(2) show ?thesis by (force simp: detections_summarize_output)
qed

lemmas node_eval =
  summarize_output_def make_detection_def example_table_def vehicle_table_def
  mobile_state_def rsu_state_def example_node_def example_image_def
  str_nat.simps digit_char_def Let_def

lemma enumerate_as_map: "enumerate 0 xs = map (\<lambda>i. (i, xs ! i)) [0..<length xs]"
  by (rule nth_equalityI) (simp_all add: nth_enumerate_eq)

lemma detections_by_index:
  "detections (summarize_output self now raw_output im_shape state) =
     map (\<lambda>i. make_detection (node_id self) now i (raw_output ! i))
       (filter (\<lambda>i. survives im_shape state (raw_output ! i)) [0..<length raw_output])"
  by (simp add: detections_summarize_output enumerate_as_map filter_map comp_def)

text \<open>
  Claim C4, with the label the code tests. A row labelled \<^verbatim>\<open>car\<close> yields no record exactly
  when the owner is not a roadside unit and both \<open>ymin > H / 1.6\<close> and \<open>ymax > H / 16\<close>
  hold, \<open>H\<close> being the first component of the image shape; a row labelled \<^verbatim>\<open>person\<close>, and
  a \<^verbatim>\<open>car\<close> row of a roadside unit, always yields its record.
\<close>

theorem self_detection_suppression:
  assumes "i < length raw_output"
  shows "(row_name (raw_output ! i) = ''car'' \<longrightarrow>
            (str_nat i \<notin> detection_id ` set (detections (summarize_output self now raw_output im_shape state))
             \<longleftrightarrow> \<not> is_rsu state \<and>
                 row_ymin (raw_output ! i) > of_int (fst im_shape) / 1.6 \<and>
                 row_ymax (raw_output ! i) > of_int (fst im_shape) / 16)) \<and>
         (row_name (raw_output ! i) = ''person'' \<or> row_name (raw_output ! i) = ''car'' \<and> is_rsu state \<longrightarrow>
            make_detection (node_id self) now i (raw_output ! i)
              \<in> set (detections (summarize_output self now raw_output im_shape state)))"
proof (intro conjI impI)
  assume "row_name (raw_output ! i) = ''car''"
  then show "str_nat i \<notin> detection_id ` set (detections (summarize_output self now raw_output im_shape state))
             \<longleftrightarrow> \<not> is_rsu state \<and>
                 row_ymin (raw_output ! i) > of_int (fst im_shape) / 1.6 \<and>
                 row_ymax (raw_output ! i) > of_int (fst im_shape) / 16"
    using detection_id_in_output[OF assms, of self now im_shape state]
    by (auto simp: survives_def)
next
  assume "row_name (raw_output ! i) = ''person'' \<or> row_name (raw_output ! i) = ''car'' \<and> is_rsu state"
  then have "survives im_shape state (raw_output ! i)"
    by (auto simp: survives_def)
  from record_in_output[OF assms this]
  show "make_detection (node_id self) now i (raw_output ! i)
              \<in> set (detections (summarize_output self now raw_output im_shape state))" .
qed

text \<open>With the label \<^verbatim>\<open>vehicle\<close> the statement fails: for a roadside unit a row labelled
  \<^verbatim>\<open>vehicle\<close> at the top of the frame yields no record.\<close>

theorem self_detection_counterexample:
  "is_rsu rsu_state \<and>
   row_name (vehicle_table ! 1) = ''vehicle'' \<and>
   str_nat 1 \<notin> detection_id `
     set (detections (summarize_output example_node 5 vehicle_table (480, 640, 3) rsu_state))"
  by (simp add: node_eval)

text \<open>On a frame of height 480 and a mobile owner, the car row with \<open>ymin = 0.7 * 480\<close> and
  \<open>ymax = 0.9 * 480\<close> is suppressed and the person row with \<open>ymin = 0\<close>, \<open>ymax = 10\<close>
  is kept; for a roadside unit the same car row is kept.\<close>

theorem self_detection_suppression_example:
  "row_name (example_table ! 0) = ''car'' \<and>
   row_ymin (example_table ! 0) = 0.7 * 480 \<and> row_ymax (example_table ! 0) = 0.9 * 480 \<and>
   str_nat 0 \<notin> detection_id `
     set (detections (summarize_output example_node 5 example_table (480, 640, 3) mobile_state)) \<and>
   row_name (example_table ! 2) = ''person'' \<and>
   row_ymin (example_table ! 2) = 0 \<and> row_ymax (example_table ! 2) = 10 \<and>
   make_detection ''n1'' 5 2 (example_table ! 2)
     \<in> set (detections (summarize_output example_node 5 example_table (480, 640, 3) mobile_state)) \<and>
   str_nat 0 \<in> detection_id `
     set (detections (summarize_output example_node 5 example_table (480, 640, 3) rsu_state))"
proof -
  have l: "0 < length example_table" "2 < length example_table"
    by (simp_all add: example_table_def)
  have f: "row_name (example_table ! 0) = ''car''" "row_ymin (example_table ! 0) = 0.7 * 480"
    "row_ymax (example_table ! 0) = 0.9 * 480" "row_name (example_table ! 2) = ''person''"
    "row_ymin (example_table ! 2) = 0" "row_ymax (example_table ! 2) = 10"
    by (simp_all add: example_table_def)
  have s: "\<not> is_rsu mobile_state" "is_rsu rsu_state" "node_id example_node = ''n1''"
    by (simp_all add: mobile_state_def rsu_state_def example_node_def)
  from self_detection_suppression[OF l(1), of example_node 5 "(480, 640, 3)" mobile_state]
    self_detection_suppression[OF l(2), of example_node 5 "(480, 640, 3)" mobile_state]
    self_detection_suppression[OF l(1), of example_node 5 "(480, 640, 3)" rsu_state]
  show ?thesis using f s by simp
qed

text \<open>
  Claim C5, with the label the code tests. Every record of the output is labelled \<^verbatim>\<open>car\<close> or
  \<^verbatim>\<open>person\<close>, and a row with any other label yields no record, whatever its box and
  whoever owns the camera.
\<close>

theorem class_filter_car_person:
  "detection_type ` set (detections (summarize_output self now raw_output im_shape state))
     \<subseteq> {''car'', ''person''} \<and>
   (\<forall>i<length raw_output.
      row_name (raw_output ! i) \<noteq> ''car'' \<and> row_name (raw_output ! i) \<noteq> ''person'' \<longrightarrow>
      str_nat i \<notin> detection_id ` set (detections (summarize_output self now raw_output im_shape state)))"
proof (intro conjI allI impI)
  show "detection_type ` set (detections (summarize_output self now raw_output im_shape state))
     \<subseteq> {''car'', ''person''}"
    by (auto simp: detections_by_index make_detection_def survives_def)
next
  fix i assume "i < length raw_output"
    and "row_name (raw_output ! i) \<noteq> ''car'' \<and> row_name (raw_output ! i) \<noteq> ''person''"
  then show "str_nat i \<notin> detection_id ` set (detections (summarize_output self now raw_output im_shape state))"
    by (simp add: detection_id_in_output survives_def)
qed

text \<open>With the labels \<^verbatim>\<open>vehicle\<close> and \<^verbatim>\<open>person\<close> the statement fails: of a \<^verbatim>\<open>car\<close> row and
  a \<^verbatim>\<open>vehicle\<close> row, the \<^verbatim>\<open>car\<close> row is the one that is kept.\<close>

theorem class_filter_counterexample:
  "map row_name vehicle_table = [''car'', ''vehicle''] \<and>
   map detection_type
     (detections (summarize_output example_node 5 vehicle_table (480, 640, 3) rsu_state)) =
     [''car'']"
  by (simp add: node_eval)

text \<open>The dog row of the example table yields no record.\<close>

theorem class_filter_car_person_example:
  "detection_type ` set (detections (summarize_output example_node 5 example_table (480, 640, 3) rsu_state))
     \<subseteq> {''car'', ''person''} \<and>
   row_name (example_table ! 1) = ''dog'' \<and>
   str_nat 1 \<notin> detection_id ` set (detections (summarize_output example_node 5 example_table (480, 640, 3) rsu_state))"
proof -
  have "(1::nat) < length example_table" "row_name (example_table ! 1) = ''dog''"
    by (simp_all add: example_table_def)
  with class_filter_car_person[of example_node 5 example_table "(480, 640, 3)" rsu_state]
  show ?thesis by auto
qed

text \<open>
  Claim C6, with the index the code writes. The output has one record per surviving row, in
  the order of the input rows; the record of the row at position \<open>i\<close> of the input table
  carries the node id, the current tick and \<^verbatim>\<open>str(i)\<close>: the index is the position of the
  row in the input table, so it skips the positions of the rows that were dropped.
\<close>

theorem reducer_output_records:
  "detections (summarize_output self now raw_output im_shape state) =
     map (\<lambda>i. make_detection (node_id self) now i (raw_output ! i))
       (filter (\<lambda>i. survives im_shape state (raw_output ! i)) [0..<length raw_output]) \<and>
   map detection_id (detections (summarize_output self now raw_output im_shape state)) =
     map str_nat (filter (\<lambda>i. survives im_shape state (raw_output ! i)) [0..<length raw_output]) \<and>
   map parent_id (detections (summarize_output self now raw_output im_shape state)) =
     replicate (length (filter (\<lambda>i. survives im_shape state (raw_output ! i)) [0..<length raw_output]))
       (node_id self) \<and>
   map timestep (detections (summarize_output self now raw_output im_shape state)) =
     replicate (length (filter (\<lambda>i. survives im_shape state (raw_output ! i)) [0..<length raw_output]))
       now"
  by (simp add: detections_by_index comp_def make_detection_def map_replicate_const)

text \<open>The indices do not number the records of the output: the two records of the example
  carry 2 and 3, where a numbering of the records would give 0 and 1.\<close>

theorem reducer_index_counterexample:
  "map detection_id
     (detections (summarize_output example_node 5 example_table (480, 640, 3) mobile_state)) =
     [''2'', ''3''] \<and>
   map str_nat [0..<length
     (detections (summarize_output example_node 5 example_table (480, 640, 3) mobile_state))] =
     [''0'', ''1'']"
  by (simp add: node_eval upt_rec)

text \<open>Of the four rows of the example the last two survive for a mobile owner.\<close>

theorem reducer_output_records_example:
  "detections (summarize_output example_node 5 example_table (480, 640, 3) mobile_state) =
     [\<lparr>parent_id = ''n1'', detection_id = ''2'', detection_type = ''person'',
       xmin = 50, xmax = 60, ymin = 0, ymax = 10, timestep = 5\<rparr>,
      \<lparr>parent_id = ''n1'', detection_id = ''3'', detection_type = ''car'',
       xmin = 200, xmax = 300, ymin = 100, ymax = 200, timestep = 5\<rparr>]"
proof -
  have "filter (\<lambda>i. survives (480, 640, 3) mobile_state (example_table ! i))
          [0..<length example_table] = [2, 3]"
    by (simp add: example_table_def mobile_state_def survives_def upt_rec)
  with reducer_output_records[of example_node 5 example_table "(480, 640, 3)" mobile_state]
  show ?thesis
    by (simp add: make_detection_def example_node_def example_table_def str_nat.simps digit_char_def)
qed

section \<open>The node's tick loop\<close>

lemma run_ticks_Raised: "run_ticks self t n (Raised err, p) = (Raised err, p)"
  by (induction n arbitrary: t) simp_all

lemma run_body_read_failure: "read_data self t = Inl err \<Longrightarrow> run_body self t p = Inl err"
  by (simp add: run_body_def)

text \<open>
  Claim C7, as the code behaves. When a read of the data loader raises at a tick, nothing is
  written at that tick, and the generator ends with that exception: at every later tick
  the two pipes are what they were before the failing tick, so the node's entry keeps its
  previous value or stays absent, and the node publishes nothing more.
\<close>

theorem read_failure_ends_node:
  assumes "read_data self t = Inl err"
  shows "run_ticks self t (Suc n) (Suspended, p) = (Raised err, p)"
  using run_body_read_failure[OF assms, of p] by (simp add: run_ticks_Raised)

lemmas run_eval =
  run_body_def read_data_def flaky_node_def example_node_def start_pipes_def example_image_def
  DAList.lookup_update Let_def

text \<open>The node does not go on to the next tick: the camera frame is missing at tick 0 only,
  a generator resumed at tick 1 alone publishes, but after the failure at tick 0 it is
  over and tick 1 publishes nothing.\<close>

theorem read_failure_counterexample:
  "read_data flaky_node 0 = Inl DataUnavailable \<and>
   fst (run flaky_node 1 (Suspended, start_pipes)) = Suspended \<and>
   DAList.lookup (data_pipe (snd (run flaky_node 1 (Suspended, start_pipes)))) ''n1'' \<noteq> None \<and>
   fst (run flaky_node 1 (run flaky_node 0 (Suspended, start_pipes))) = Raised DataUnavailable \<and>
   DAList.lookup (data_pipe (snd (run flaky_node 1 (run flaky_node 0 (Suspended, start_pipes)))))
     ''n1'' = None"
  by (simp add: run_eval)

theorem read_failure_ends_node_example:
  "read_data flaky_node 0 = Inl DataUnavailable \<and>
   run_ticks flaky_node 0 3 (Suspended, start_pipes) = (Raised DataUnavailable, start_pipes)"
proof -
  have h: "read_data flaky_node 0 = Inl DataUnavailable"
    by (simp add: run_eval)
  from read_failure_ends_node[OF h, of 2 start_pipes] h show ?thesis
    by (simp add: numeral_3_eq_3)
qed

lemma one_entry_per_key:
  assumes "distinct (map fst xs)" "k \<in> fst ` set xs"
  shows "length (filter (\<lambda>entry. fst entry = k) xs) = 1"
  using assms
proof (induction xs)
  case Nil
  then show ?case by simp
next
  case (Cons a xs)
  show ?case
  proof (cases "fst a = k")
    case True
    with Cons.prems have "k \<notin> fst ` set xs" by auto
    then have "filter (\<lambda>entry. fst entry = k) xs = []"
      by (auto simp: filter_empty_conv)
    with True show ?thesis by simp
  next
    case False
    with Cons show ?thesis by auto
  qed
qed

lemma lookup_in_keys:
  assumes "DAList.lookup d k = Some v"
  shows "k \<in> fst ` set (DAList.impl_of d)"
proof -
  from assms have "map_of (DAList.impl_of d) k = Some v"
    by (simp add: DAList.lookup.rep_eq)
  then have "(k, v) \<in> set (DAList.impl_of d)" by (rule map_of_SomeD)
  then show ?thesis by force
qed

text \<open>
  Claim C8. When the body of the loop completes at tick \<open>t\<close>, the entry of the node in
  \<^verbatim>\<open>data_pipe\<close> is exactly the summary built at that tick, no entry of another node id has
  changed, and the dictionary holds one entry for the node id and no key twice. Hence
  the entry stays as published through the publishes of other nodes, until the node's own
  next publish replaces it.
\<close>

theorem publish_round_trip:
  assumes "run_body self t p = Inr p'"
  shows "(\<exists>state img. read_data self t = Inr (state, img) \<and>
            DAList.lookup (data_pipe p') (node_id self) =
              Some (summarize_output self t (forward self img) (shape img) state)) \<and>
         (\<forall>other. other \<noteq> node_id self \<longrightarrow>
            DAList.lookup (data_pipe p') other = DAList.lookup (data_pipe p) other) \<and>
         distinct (map fst (DAList.impl_of (data_pipe p'))) \<and>
         length (filter (\<lambda>entry. fst entry = node_id self) (DAList.impl_of (data_pipe p'))) = 1"
proof -
  from assms obtain state img yolo_images where
    r: "read_data self t = Inr (state, img)"
    and p': "p' = p\<lparr>result_storage_pipe :=
                   DAList.update ''yolo_images''
                     (yolo_images @ detections (summarize_output self t (forward self img) (shape img) state))
                     (result_storage_pipe p),
                 data_pipe := DAList.update (node_id self)
                     (summarize_output self t (forward self img) (shape img) state) (data_pipe p)\<rparr>"
    by (auto simp: run_body_def Let_def split: sum.splits option.splits prod.splits)
  have 1: "DAList.lookup (data_pipe p') (node_id self) =
              Some (summarize_output self t (forward self img) (shape img) state)"
    by (simp add: p')
  have 2: "\<forall>other. other \<noteq> node_id self \<longrightarrow>
            DAList.lookup (data_pipe p') other = DAList.lookup (data_pipe p) other"
    by (simp add: p' DAList.lookup_update)
  have 3: "distinct (map fst (DAList.impl_of (data_pipe p')))" by simp
  have 4: "length (filter (\<lambda>entry. fst entry = node_id self) (DAList.impl_of (data_pipe p'))) = 1"
    using one_entry_per_key[OF 3 lookup_in_keys[OF 1]] .
  from r 1 2 3 4 show ?thesis by blast
qed

text \<open>The summary of tick 5 is read back, survives the publish of a second node, and is
  replaced by the summary of tick 6.\<close>

theorem publish_round_trip_example:
  "fst (run example_node 5 (Suspended, start_pipes)) = Suspended \<and>
   map_option summary_timestep
     (DAList.lookup (data_pipe (snd (run example_node 5 (Suspended, start_pipes)))) ''n1'') =
     Some 5 \<and>
   map_option summary_timestep
     (DAList.lookup
        (data_pipe (snd (run (example_node\<lparr>node_id := ''n2''\<rparr>) 5
                          (run example_node 5 (Suspended, start_pipes))))) ''n1'') =
     Some 5 \<and>
   map_option summary_timestep
     (DAList.lookup (data_pipe (snd (run_ticks example_node 5 (Suc (Suc 0)) (Suspended, start_pipes)))) ''n1'') =
     Some 6 \<and>
   (\<exists>p'. run_body example_node 5 start_pipes = Inr p' \<and>
      DAList.lookup (data_pipe p') ''n1'' =
        Some (summarize_output example_node 5 example_table (480, 640, 3) mobile_state) \<and>
      DAList.lookup (data_pipe p') ''n2'' = None \<and>
      length (filter (\<lambda>entry. fst entry = ''n1'') (DAList.impl_of (data_pipe p'))) = 1)"
proof -
  have ticks: "fst (run example_node 5 (Suspended, start_pipes)) = Suspended"
    "map_option summary_timestep
     (DAList.lookup (data_pipe (snd (run example_node 5 (Suspended, start_pipes)))) ''n1'') =
     Some 5"
    "map_option summary_timestep
     (DAList.lookup
        (data_pipe (snd (run (example_node\<lparr>node_id := ''n2''\<rparr>) 5
                          (run example_node 5 (Suspended, start_pipes))))) ''n1'') =
     Some 5"
    "map_option summary_timestep
     (DAList.lookup (data_pipe (snd (run_ticks example_node 5 (Suc (Suc 0)) (Suspended, start_pipes)))) ''n1'') =
     Some 6"
    by (simp_all add: run_eval summarize_output_def)
  obtain p' where r: "run_body example_node 5 start_pipes = Inr p'"
    by (simp add: run_eval)
  have rd: "read_data example_node 5 = Inr (mobile_state, example_image)"
    by (simp add: run_eval)
  from publish_round_trip[OF r] rd
  have "DAList.lookup (data_pipe p') ''n1'' =
        Some (summarize_output example_node 5 example_table (480, 640, 3) mobile_state) \<and>
      DAList.lookup (data_pipe p') ''n2'' = None \<and>
      length (filter (\<lambda>entry. fst entry = ''n1'') (DAList.impl_of (data_pipe p'))) = 1"
    by (simp add: example_node_def example_image_def start_pipes_def)
  with r ticks show ?thesis by blast
qed

end
